theory Spec2Isabelle
  imports Complex_Main "HOL-Library.Sublist"
begin

section \<open>The EVM price pusher: staleness decision, batching and submission\<close>

text \<open>
  A shallow embedding of the class \<open>Pusher\<close> of
  \<^verbatim>\<open>pyth-evm-price-pusher/src/pusher.ts\<close>: the decision function \<open>shouldUpdate\<close>, the
  loop body of \<open>start\<close> that collects the feeds to push, and \<open>pushUpdates\<close> with the two
  event callbacks it registers on the transaction it sends.
\<close>

subsection \<open>JavaScript numbers\<close>

text \<open>
  The values of the type \<open>number\<close> that \<open>shouldUpdate\<close> computes with. A finite value
  is an exact rational; \<open>Infinity\<close>, \<open>-Infinity\<close> and \<open>NaN\<close> are the values IEEE 754
  gives to a division by zero, which JavaScript does not turn into an exception. Two
  things of IEEE 754 doubles are left out: the rounding of a finite result to 53
  bits, and the sign of zero (every zero here is \<open>+0\<close>: the denominators of
  \<open>shouldUpdate\<close> are \<open>Number(price)\<close> of a price, never \<open>-0\<close>).
\<close>

datatype number = Fin rat | PInf | NInf | NaN

text \<open>The binary operators \<open>-\<close>, \<open>/\<close> and \<open>*\<close>.\<close>

fun num_sub :: "number \<Rightarrow> number \<Rightarrow> number" where
  "num_sub NaN _ = NaN"
| "num_sub _ NaN = NaN"
| "num_sub (Fin a) (Fin b) = Fin (a - b)"
| "num_sub (Fin a) PInf = NInf"
| "num_sub (Fin a) NInf = PInf"
| "num_sub PInf PInf = NaN"
| "num_sub PInf _ = PInf"
| "num_sub NInf NInf = NaN"
| "num_sub NInf _ = NInf"

fun num_div :: "number \<Rightarrow> number \<Rightarrow> number" where
  "num_div NaN _ = NaN"
| "num_div _ NaN = NaN"
| "num_div (Fin a) (Fin b) =
     (if b = 0 then (if a = 0 then NaN else if 0 < a then PInf else NInf)
      else Fin (a / b))"
| "num_div (Fin a) _ = Fin 0"
| "num_div PInf (Fin b) = (if 0 \<le> b then PInf else NInf)"
| "num_div NInf (Fin b) = (if 0 \<le> b then NInf else PInf)"
| "num_div _ _ = NaN"

fun num_mul :: "number \<Rightarrow> number \<Rightarrow> number" where
  "num_mul NaN _ = NaN"
| "num_mul _ NaN = NaN"
| "num_mul (Fin a) (Fin b) = Fin (a * b)"
| "num_mul (Fin a) PInf = (if a = 0 then NaN else if 0 < a then PInf else NInf)"
| "num_mul (Fin a) NInf = (if a = 0 then NaN else if 0 < a then NInf else PInf)"
| "num_mul PInf (Fin b) = (if b = 0 then NaN else if 0 < b then PInf else NInf)"
| "num_mul NInf (Fin b) = (if b = 0 then NaN else if 0 < b then NInf else PInf)"
| "num_mul PInf PInf = PInf"
| "num_mul PInf NInf = NInf"
| "num_mul NInf PInf = NInf"
| "num_mul NInf NInf = PInf"

text \<open>\<open>Math.abs\<close>.\<close>

fun num_abs :: "number \<Rightarrow> number" where
  "num_abs (Fin a) = Fin \<bar>a\<bar>"
| "num_abs PInf = PInf"
| "num_abs NInf = PInf"
| "num_abs NaN = NaN"

text \<open>The comparison \<open>x >= y\<close>: false as soon as one side is \<open>NaN\<close>.\<close>

fun num_ge :: "number \<Rightarrow> number \<Rightarrow> bool" where
  "num_ge NaN _ = False"
| "num_ge _ NaN = False"
| "num_ge (Fin a) (Fin b) = (b \<le> a)"
| "num_ge PInf _ = True"
| "num_ge _ NInf = True"
| "num_ge _ _ = False"


subsection \<open>The data\<close>

text \<open>
  Modelled from the spec: \<open>PriceInfo\<close> is declared in \<^verbatim>\<open>./price-listener\<close>, which is
  not among the sources. The spec's PriceObservation has a price magnitude, a
  confidence interval magnitude and a publish timestamp in integer seconds;
  \<open>shouldUpdate\<close> reads the first two through \<open>Number(...)\<close> and the third directly.
\<close>

record PriceInfo =
  price :: rat
  conf :: rat
  publishTime :: int

text \<open>\<open>Number(x)\<close> of a price or a confidence: a finite number.\<close>

definition Number :: "rat \<Rightarrow> number" where
  "Number x = Fin x"

text \<open>
  Modelled from the spec: \<open>PriceConfig\<close> is declared in \<^verbatim>\<open>./price-config\<close>, which is not
  among the sources. \<open>pusher.ts\<close> reads the fields \<open>alias\<close> and \<open>id\<close> (here \<open>feed_alias\<close> and
  \<open>feed_id\<close>: \<open>alias\<close> is a command of Isabelle and \<open>id\<close> is HOL's identity function),
  \<open>timeDifference\<close> (a \<open>DurationInSeconds\<close>), \<open>priceDeviation\<close> and \<open>confidenceRatio\<close>
  (two \<open>PctNumber\<close>s).
\<close>

record PriceConfig =
  feed_alias :: string
  feed_id :: string
  timeDifference :: rat
  priceDeviation :: rat
  confidenceRatio :: rat

subsection \<open>shouldUpdate\<close>

text \<open>
  The three signals of \<open>shouldUpdate\<close> (its local constants \<open>timeDifference\<close>,
  \<open>priceDeviationPct\<close> and \<open>confidenceRatioPct\<close>, lines 189 to 200), written as the source
  writes them: \<open>Math.abs\<close> is around the difference of the prices only, and around the
  whole confidence ratio.
\<close>

definition timeDifference_of :: "PriceInfo \<Rightarrow> PriceInfo \<Rightarrow> int" where
  "timeDifference_of sourceLatestPrice targetLatestPrice =
     publishTime sourceLatestPrice - publishTime targetLatestPrice"

definition priceDeviationPct :: "PriceInfo \<Rightarrow> PriceInfo \<Rightarrow> number" where
  "priceDeviationPct sourceLatestPrice targetLatestPrice =
     num_mul
       (num_div
          (num_abs (num_sub (Number (price sourceLatestPrice))
                            (Number (price targetLatestPrice))))
          (Number (price targetLatestPrice)))
       (Fin 100)"

definition confidenceRatioPct :: "PriceInfo \<Rightarrow> number" where
  "confidenceRatioPct sourceLatestPrice =
     num_abs
       (num_mul
          (num_div (Number (conf sourceLatestPrice)) (Number (price sourceLatestPrice)))
          (Fin 100))"

text \<open>
  \<open>shouldUpdate\<close> (lines 164 to 237). \<open>undefined\<close> is \<open>None\<close>. The function also writes
  the signals and the decision to the console; that output does not reach the result
  and is not modelled.
\<close>

definition shouldUpdate ::
  "PriceConfig \<Rightarrow> PriceInfo option \<Rightarrow> PriceInfo option \<Rightarrow> bool" where
  "shouldUpdate priceConfig sourceLatestPrice targetLatestPrice =
     (case sourceLatestPrice of
        None \<Rightarrow> False
      | Some s \<Rightarrow>
          (case targetLatestPrice of
             None \<Rightarrow> True
           | Some t \<Rightarrow>
               if publishTime s < publishTime t then False
               else
                 num_ge (Fin (of_int (timeDifference_of s t))) (Fin (timeDifference priceConfig))
                 \<or> num_ge (priceDeviationPct s t) (Fin (priceDeviation priceConfig))
                 \<or> num_ge (confidenceRatioPct s) (Fin (confidenceRatio priceConfig))))"

text \<open>
  The earlier revision of the file (\<^verbatim>\<open>src/unnamed/part_000\<close>) has the same function with
  another interface: one set of thresholds for every feed, kept in the object, and the
  two listeners read inside the function (lines 97 to 163).
\<close>

type_synonym listener = "string \<Rightarrow> PriceInfo option"

record Thresholds =
  timeDifferenceThreshold :: rat
  priceDeviationThreshold :: rat
  confidenceRatioThreshold :: rat

definition shouldUpdate_priceId :: "Thresholds \<Rightarrow> listener \<Rightarrow> listener \<Rightarrow> string \<Rightarrow> bool" where
  "shouldUpdate_priceId this targetPriceListener srcPriceListener priceId =
     (let targetLatestPrice = targetPriceListener priceId;
          srcLatestPrice = srcPriceListener priceId
      in case srcLatestPrice of
           None \<Rightarrow> False
         | Some s \<Rightarrow>
             (case targetLatestPrice of
                None \<Rightarrow> True
              | Some t \<Rightarrow>
                  if publishTime s < publishTime t then False
                  else
                    num_ge (Fin (of_int (timeDifference_of s t)))
                           (Fin (timeDifferenceThreshold this))
                    \<or> num_ge (priceDeviationPct s t) (Fin (priceDeviationThreshold this))
                    \<or> num_ge (confidenceRatioPct s) (Fin (confidenceRatioThreshold this))))"

subsection \<open>The loop body of start: collecting the feeds to push\<close>

text \<open>
  \<open>(targetLatestPrice?.publishTime || 0)\<close> of line 77: \<open>||\<close> takes its right operand
  when the left one is \<open>undefined\<close> or \<open>0\<close>.
\<close>

definition publishTime_or_0 :: "PriceInfo option \<Rightarrow> int" where
  "publishTime_or_0 targetLatestPrice =
     (case targetLatestPrice of
        None \<Rightarrow> 0
      | Some t \<Rightarrow> if publishTime t = 0 then 0 else publishTime t)"

text \<open>
  The \<open>for ... of\<close> loop of lines 65 to 79 over \<open>this.priceConfigs\<close>, with the two arrays
  \<open>pricesToPush\<close> and \<open>pubTimesToPush\<close> it pushes to as accumulators. Each listener is
  read once per feed, and the target's answer serves both the decision and the
  publish time.
\<close>

fun collect ::
  "listener \<Rightarrow> listener \<Rightarrow> PriceConfig list \<Rightarrow> PriceConfig list \<times> int list
   \<Rightarrow> PriceConfig list \<times> int list" where
  "collect targetPriceListener sourcePriceListener [] acc = acc"
| "collect targetPriceListener sourcePriceListener (priceConfig # rest) (pricesToPush, pubTimesToPush) =
     (let priceId = feed_id priceConfig;
          targetLatestPrice = targetPriceListener priceId;
          sourceLatestPrice = sourcePriceListener priceId
      in if shouldUpdate priceConfig sourceLatestPrice targetLatestPrice
         then collect targetPriceListener sourcePriceListener rest
                (pricesToPush @ [priceConfig],
                 pubTimesToPush @ [publishTime_or_0 targetLatestPrice + 1])
         else collect targetPriceListener sourcePriceListener rest
                (pricesToPush, pubTimesToPush))"

subsection \<open>pushUpdates\<close>

text \<open>
  What the program does to the outside: the calls to the price service and to the
  contract, the console, and the timer of \<open>sleep\<close>.
\<close>

datatype effect =
    GetPriceFeedsUpdateData "string list"
  | GetUpdateFee nat
  | UpdatePriceFeedsIfNecessary "string list" "string list" "int list" string
  | ConsoleLog "string list"
  | ConsoleError "string list"
  | Sleep rat

text \<open>
  \<open>pushUpdates\<close> is an \<open>async\<close> function: a call runs up to the first \<open>await\<close> and
  returns a promise; the rest runs when the awaited call settles. The state of one
  call is where it is suspended, with the local variables the rest still reads, or how
  its promise has settled:
  \<^item> \<open>AwaitUpdateData\<close>: at the \<open>await\<close> of line 100, with \<open>pricesToPush\<close>, \<open>priceIds\<close> and
    \<open>pubTimesToPush\<close>;
  \<^item> \<open>AwaitUpdateFee\<close>: at the \<open>await\<close> of line 111, with \<open>priceFeedUpdateData\<close>,
    \<open>priceIds\<close> and \<open>pubTimesToPush\<close>;
  \<^item> \<open>Sent\<close>: the transaction is sent (line 122), both callbacks are registered, the
    function has returned and its promise is fulfilled;
  \<^item> \<open>Fulfilled\<close>: the function has returned at line 93 and nothing is registered;
  \<^item> \<open>Rejected\<close>: an awaited call has failed; \<open>pushUpdates\<close> has no \<open>try\<close>, so its promise
    is rejected with that error (an error is its message).
\<close>

datatype pushUpdates_state =
    AwaitUpdateData "PriceConfig list" "string list" "int list"
  | AwaitUpdateFee "string list" "string list" "int list"
  | Sent
  | Fulfilled
  | Rejected string

text \<open>
  Lines 92 to 102. \<open>addLeading0x\<close> is imported from \<^verbatim>\<open>./utils\<close>, which is not among the
  sources: it is a parameter.
\<close>

definition pushUpdates ::
  "(string \<Rightarrow> string) \<Rightarrow> PriceConfig list \<Rightarrow> int list \<Rightarrow> effect list \<times> pushUpdates_state" where
  "pushUpdates addLeading0x pricesToPush pubTimesToPush =
     (if length pricesToPush = 0 then ([], Fulfilled)
      else
        let priceIds = map (\<lambda>priceConfig. addLeading0x (feed_id priceConfig)) pricesToPush
        in ([GetPriceFeedsUpdateData priceIds],
            AwaitUpdateData pricesToPush priceIds pubTimesToPush))"

text \<open>
  Lines 100 to 114: \<open>getPriceFeedsUpdateData\<close> has settled, with an error (\<open>Inl\<close>) or with
  the update data.
\<close>

fun updateData_settled :: "pushUpdates_state \<Rightarrow> string + string list \<Rightarrow> effect list \<times> pushUpdates_state" where
  "updateData_settled (AwaitUpdateData pricesToPush priceIds pubTimesToPush) (Inl err) =
     ([], Rejected err)"
| "updateData_settled (AwaitUpdateData pricesToPush priceIds pubTimesToPush) (Inr priceFeedUpdateData) =
     ([ConsoleLog
         (''Pushing '' #
          map (\<lambda>priceConfig. feed_alias priceConfig @ '' ('' @ feed_id priceConfig @ '')'')
              pricesToPush),
       GetUpdateFee (length priceFeedUpdateData)],
      AwaitUpdateFee priceFeedUpdateData priceIds pubTimesToPush)"
| "updateData_settled st _ = ([], st)"

text \<open>
  Lines 111 to 155: \<open>getUpdateFee(...).call()\<close> has settled. With a fee the transaction
  is sent and the callbacks are registered; the function does not wait for them.
\<close>

fun updateFee_settled :: "pushUpdates_state \<Rightarrow> string + string \<Rightarrow> effect list \<times> pushUpdates_state" where
  "updateFee_settled (AwaitUpdateFee priceFeedUpdateData priceIds pubTimesToPush) (Inl err) =
     ([], Rejected err)"
| "updateFee_settled (AwaitUpdateFee priceFeedUpdateData priceIds pubTimesToPush) (Inr updateFee) =
     ([ConsoleLog [''Update fee: '' @ updateFee],
       UpdatePriceFeedsIfNecessary priceFeedUpdateData priceIds pubTimesToPush updateFee],
      Sent)"
| "updateFee_settled st _ = ([], st)"

subsection \<open>The callbacks of the transaction\<close>

text \<open>\<open>String.prototype.includes\<close> (here \<open>str_includes\<close>): the second string occurs in the first.\<close>

fun str_includes :: "string \<Rightarrow> string \<Rightarrow> bool" where
  "str_includes [] searchString = (searchString = [])"
| "str_includes (c # s) searchString = (prefix searchString (c # s) \<or> str_includes s searchString)"

definition no_fresh_prices :: string where
  "no_fresh_prices =
     ''no prices in the submitted batch have fresh prices, so this update will have no effect''"

definition incorrect_nonce :: string where
  "incorrect_nonce = ''the tx doesn't have the correct nonce.''"

definition not_enough_funds :: string where
  "not_enough_funds = ''sender doesn't have enough funds to send tx.''"

text \<open>The callback of \<open>"transactionHash"\<close> (lines 123 to 125).\<close>

definition on_transactionHash :: "string \<Rightarrow> effect list" where
  "on_transactionHash hash = [ConsoleLog [''Successful. Tx hash: '' @ hash]]"

text \<open>
  The callback of \<open>"error"\<close> (lines 126 to 155), on the message of the error: it returns,
  or it throws the error it was given. The three tests are made in this order. The
  receipt that comes with the error is only printed, in the last case, and is left
  out.
\<close>

datatype callback_result = Returned | Thrown string

definition on_error :: "string \<Rightarrow> effect list \<times> callback_result" where
  "on_error message =
     (if str_includes message no_fresh_prices
      then ([ConsoleLog [''The target chain price has already updated, Skipping this push.'']],
            Returned)
      else if str_includes message incorrect_nonce
      then ([ConsoleLog [''Multiple users are using the same accounts and nonce is incorrect. Skipping this push.'']],
            Returned)
      else if str_includes message not_enough_funds
      then ([ConsoleError [''Payer is out of balance, please top it up.'']], Thrown message)
      else ([ConsoleError [''An unidentified error has occured:''],
             ConsoleError [message],
             ConsoleError [''Skipping this push.'']],
            Returned))"

subsection \<open>start\<close>

text \<open>
  The fields of the object that \<open>start\<close> and \<open>pushUpdates\<close> read and that this program
  owns. The connection, the contract and the two listeners are the outside; what they
  answer comes in with the events below.
\<close>

record Pusher =
  priceConfigs :: "PriceConfig list"
  cooldownDuration :: rat
  addLeading0x :: "string \<Rightarrow> string"

text \<open>
  An execution of \<open>start\<close>, up to some moment:
  \<^item> \<open>ticks\<close>: how many times the body of the \<open>for (;;)\<close> loop has been entered;
  \<^item> \<open>calls\<close>: the calls of \<open>pushUpdates\<close> so far, one per tick in order, each with its
    state;
  \<^item> \<open>trace\<close>: the effects so far;
  \<^item> \<open>escaped\<close>: the errors that have left the code of this program: the error of a
    rejected promise of \<open>pushUpdates\<close> (line 80 calls it without \<open>await\<close> and attaches
    nothing to the promise it returns), and an error thrown out of the \<open>"error"\<close>
    callback (no code of this program is on the stack below a callback). What the
    emitter and the runtime do with such an error is theirs; the model goes on with
    what the program does as long as it runs.
\<close>

record run_state =
  ticks :: nat
  calls :: "pushUpdates_state list"
  trace :: "effect list"
  escaped :: "string list"

text \<open>
  The body of the loop (lines 62 to 81), from its entry to the \<open>await\<close> of \<open>sleep\<close>, with
  what the two listeners answer at that moment: it collects, calls \<open>pushUpdates\<close>,
  which runs up to its first \<open>await\<close> or returns, and goes to sleep.
\<close>

definition loop_body :: "Pusher \<Rightarrow> listener \<Rightarrow> listener \<Rightarrow> run_state \<Rightarrow> run_state" where
  "loop_body this targetPriceListener sourcePriceListener s =
     (let (pricesToPush, pubTimesToPush) =
            collect targetPriceListener sourcePriceListener (priceConfigs this) ([], []);
          (effects, call) = pushUpdates (addLeading0x this) pricesToPush pubTimesToPush
      in s\<lparr>ticks := ticks s + 1,
            calls := calls s @ [call],
            trace := trace s @ effects @ [Sleep (cooldownDuration this * 1000)]\<rparr>)"

text \<open>
  What happens next comes from outside, while \<open>start\<close> is suspended in \<open>sleep\<close>: the
  timer of the sleep fires (with the listeners' answers of that moment), an awaited
  call of the \<open>i\<close>-th call of \<open>pushUpdates\<close> settles, or the transaction it has sent emits
  an event.
\<close>

datatype event =
    SleepOver listener listener
  | UpdateData nat "string + string list"
  | UpdateFee nat "string + string"
  | TransactionHash nat string
  | TransactionError nat string

fun rejection :: "pushUpdates_state \<Rightarrow> string list" where
  "rejection (Rejected err) = [err]"
| "rejection _ = []"

fun thrown :: "callback_result \<Rightarrow> string list" where
  "thrown (Thrown err) = [err]"
| "thrown Returned = []"

fun step :: "Pusher \<Rightarrow> run_state \<Rightarrow> event \<Rightarrow> run_state" where
  "step this s (SleepOver targetPriceListener sourcePriceListener) =
     loop_body this targetPriceListener sourcePriceListener s"
| "step this s (UpdateData i result) =
     (if i < length (calls s) then
        (case calls s ! i of
           AwaitUpdateData pricesToPush priceIds pubTimesToPush \<Rightarrow>
             (let (effects, call) = updateData_settled (calls s ! i) result
              in s\<lparr>calls := (calls s)[i := call],
                    trace := trace s @ effects,
                    escaped := escaped s @ rejection call\<rparr>)
         | _ \<Rightarrow> s)
      else s)"
| "step this s (UpdateFee i result) =
     (if i < length (calls s) then
        (case calls s ! i of
           AwaitUpdateFee priceFeedUpdateData priceIds pubTimesToPush \<Rightarrow>
             (let (effects, call) = updateFee_settled (calls s ! i) result
              in s\<lparr>calls := (calls s)[i := call],
                    trace := trace s @ effects,
                    escaped := escaped s @ rejection call\<rparr>)
         | _ \<Rightarrow> s)
      else s)"
| "step this s (TransactionHash i hash) =
     (if i < length (calls s) \<and> calls s ! i = Sent
      then s\<lparr>trace := trace s @ on_transactionHash hash\<rparr>
      else s)"
| "step this s (TransactionError i message) =
     (if i < length (calls s) \<and> calls s ! i = Sent
      then (let (effects, result) = on_error message
            in s\<lparr>trace := trace s @ effects, escaped := escaped s @ thrown result\<rparr>)
      else s)"

text \<open>
  \<open>start\<close> (lines 60 to 83) never returns. Its execution up to a moment is the first
  pass through the body followed by the events up to that moment.
\<close>

definition start :: "Pusher \<Rightarrow> listener \<Rightarrow> listener \<Rightarrow> event list \<Rightarrow> run_state" where
  "start this targetPriceListener sourcePriceListener events =
     foldl (step this)
       (loop_body this targetPriceListener sourcePriceListener
          \<lparr>ticks = 0, calls = [], trace = [], escaped = []\<rparr>)
       events"

fun is_SleepOver :: "event \<Rightarrow> bool" where
  "is_SleepOver (SleepOver targetPriceListener sourcePriceListener) = True"
| "is_SleepOver _ = False"

subsection \<open>The two percentages in the words of the specification\<close>

text \<open>
  The specification gives the price deviation as
  \<open>|sourceObs.price - targetObs.price| / |targetObs.price| * 100\<close> and the confidence ratio
  as \<open>|sourceObs.conf / sourceObs.price| * 100\<close>. These two definitions follow those words,
  to be compared with \<open>priceDeviationPct\<close> and \<open>confidenceRatioPct\<close> above, which follow the
  source.
\<close>

definition priceDeviationPct_spec :: "PriceInfo \<Rightarrow> PriceInfo \<Rightarrow> number" where
  "priceDeviationPct_spec sourceObs targetObs =
     num_mul
       (num_div
          (num_abs (num_sub (Number (price sourceObs)) (Number (price targetObs))))
          (num_abs (Number (price targetObs))))
       (Fin 100)"

definition confidenceRatioPct_spec :: "PriceInfo \<Rightarrow> number" where
  "confidenceRatioPct_spec sourceObs =
     num_mul (num_abs (num_div (Number (conf sourceObs)) (Number (price sourceObs)))) (Fin 100)"

subsection \<open>A feed and a pusher to compute with\<close>

text \<open>
  The feed of the specification's scenario: 60 seconds, 1 percent and 10 percent; a
  pusher with this feed alone and a cooldown of 10 seconds; observations by their three
  fields; and a listener that knows this feed only.
\<close>

definition feedA :: PriceConfig where
  "feedA = \<lparr>feed_alias = ''A'', feed_id = ''0a'', timeDifference = 60,
             priceDeviation = 1, confidenceRatio = 10\<rparr>"

definition observation :: "rat \<Rightarrow> rat \<Rightarrow> int \<Rightarrow> PriceInfo" where
  "observation p c t = \<lparr>price = p, conf = c, publishTime = t\<rparr>"

definition listener_of :: "PriceInfo option \<Rightarrow> listener" where
  "listener_of latest = (\<lambda>priceId. if priceId = ''0a'' then latest else None)"

definition pusherA :: Pusher where
  "pusherA = \<lparr>priceConfigs = [feedA], cooldownDuration = 10,
               addLeading0x = (\<lambda>hex. ''0x'' @ hex)\<rparr>"

section \<open>Properties\<close>

subsection \<open>shouldUpdate\<close>

text \<open>The earlier revision decides as the later one does, on the thresholds of the object.\<close>

lemma shouldUpdate_priceId_eq:
  "shouldUpdate_priceId this targetPriceListener srcPriceListener priceId =
     shouldUpdate
       \<lparr>feed_alias = a, feed_id = priceId,
        timeDifference = timeDifferenceThreshold this,
        priceDeviation = priceDeviationThreshold this,
        confidenceRatio = confidenceRatioThreshold this\<rparr>
       (srcPriceListener priceId) (targetPriceListener priceId)"
  by (simp add: shouldUpdate_priceId_def shouldUpdate_def split: option.split)



text \<open>
  C2. The three guards of \<open>shouldUpdate\<close>, in their order: with no source observation the
  answer is false, whatever the thresholds and the target; with a source observation
  and no target observation it is true; with both, and the source older than the
  target, it is false, whatever the signals would be.
\<close>

theorem shouldUpdate_guards:
  "shouldUpdate config None targetLatestPrice = False
   \<and> shouldUpdate config (Some sourceObs) None = True
   \<and> (publishTime sourceObs < publishTime targetObs
        \<longrightarrow> shouldUpdate config (Some sourceObs) (Some targetObs) = False)"
  by (simp add: shouldUpdate_def)

text \<open>
  A source at 900 against a target at 950: the price has doubled and the confidence
  ratio is 25 percent, both over the thresholds of the feed, and the answer is false.
\<close>

theorem shouldUpdate_guards_witness:
  "publishTime (observation 200 50 900) < publishTime (observation 100 1 950)
   \<and> num_ge (priceDeviationPct (observation 200 50 900) (observation 100 1 950))
           (Fin (priceDeviation feedA))
   \<and> num_ge (confidenceRatioPct (observation 200 50 900)) (Fin (confidenceRatio feedA))
   \<and> shouldUpdate feedA (Some (observation 200 50 900)) (Some (observation 100 1 950)) = False"
  using shouldUpdate_guards [of feedA None "observation 200 50 900" "observation 100 1 950"]
  by (simp add: observation_def feedA_def priceDeviationPct_def confidenceRatioPct_def
        Number_def)

subsection \<open>The two percentages\<close>

text \<open>
  The confidence ratio of the source is the one of the specification. The price
  deviation of the source is the one of the specification as long as the target's
  price is not negative: the source takes the absolute value of the numerator only.
\<close>

lemma confidenceRatioPct_eq_spec: "confidenceRatioPct sourceObs = confidenceRatioPct_spec sourceObs"
  by (simp add: confidenceRatioPct_def confidenceRatioPct_spec_def Number_def abs_mult)

lemma priceDeviationPct_eq_spec:
  "0 \<le> price targetObs \<Longrightarrow>
     priceDeviationPct sourceObs targetObs = priceDeviationPct_spec sourceObs targetObs"
  by (simp add: priceDeviationPct_def priceDeviationPct_spec_def Number_def)

lemma priceDeviationPct_negative:
  "price targetObs < 0 \<Longrightarrow>
     priceDeviationPct sourceObs targetObs =
       Fin (- (\<bar>price sourceObs - price targetObs\<bar> / \<bar>price targetObs\<bar> * 100))"
  by (simp add: priceDeviationPct_def Number_def abs_if)

text \<open>The two examples of the specification: 110 against 100, and 5 on 100.\<close>

lemma priceDeviationPct_110_100:
  "priceDeviationPct (observation 110 c t) (observation 100 c' t') = Fin 10"
  by (simp add: priceDeviationPct_def observation_def Number_def)

lemma confidenceRatioPct_5_100: "confidenceRatioPct (observation 100 5 t) = Fin 5"
  by (simp add: confidenceRatioPct_def observation_def Number_def)

text \<open>
  C3. The specification gives the price deviation as
  \<open>|sourceObs.price - targetObs.price| / |targetObs.price| * 100\<close>, with the absolute value
  of the numerator and of the denominator. The source divides by the target's price
  itself: with a source price of -110 against a target price of -100 it computes -10
  percent where the specification's formula gives 10 percent, and the feed of the
  scenario, whose deviation threshold is 1 percent, is not pushed.
\<close>

theorem priceDeviationPct_negative_target:
  "priceDeviationPct (observation (- 110) 1 1000) (observation (- 100) 1 950) = Fin (- 10)
   \<and> priceDeviationPct_spec (observation (- 110) 1 1000) (observation (- 100) 1 950) = Fin 10
   \<and> \<not> shouldUpdate feedA (Some (observation (- 110) 1 1000)) (Some (observation (- 100) 1 950))"
  by (simp add: priceDeviationPct_def priceDeviationPct_spec_def confidenceRatioPct_def
        shouldUpdate_def timeDifference_of_def observation_def feedA_def Number_def)



subsection \<open>The batch\<close>

lemma publishTime_or_0_plus_1:
  "publishTime_or_0 targetLatestPrice + 1 =
     (case targetLatestPrice of None \<Rightarrow> 1 | Some t \<Rightarrow> publishTime t + 1)"
  by (simp add: publishTime_or_0_def split: option.split)

text \<open>
  The loop appends to what the two arrays hold: the feeds that \<open>shouldUpdate\<close> accepts,
  in the order of the configuration, and one publish time for each.
\<close>

lemma collect_append:
  "collect targetPriceListener sourcePriceListener configs (pricesToPush, pubTimesToPush) =
     (pricesToPush @
        filter (\<lambda>c. shouldUpdate c (sourcePriceListener (feed_id c))
                                    (targetPriceListener (feed_id c))) configs,
      pubTimesToPush @
        map (\<lambda>c. publishTime_or_0 (targetPriceListener (feed_id c)) + 1)
          (filter (\<lambda>c. shouldUpdate c (sourcePriceListener (feed_id c))
                                       (targetPriceListener (feed_id c))) configs))"
  by (induction configs arbitrary: pricesToPush pubTimesToPush) (simp_all add: Let_def)

lemma collect_same_length:
  "collect targetPriceListener sourcePriceListener configs ([], []) = (pricesToPush, pubTimesToPush)
   \<Longrightarrow> length pubTimesToPush = length pricesToPush"
  by (auto simp: collect_append)

text \<open>
  C7. The batch of a tick holds the feeds that \<open>shouldUpdate\<close> accepts, and beside each
  the publish time of the target observation read for that decision plus one, or 1
  when the target has no observation. These publish times are computed once, in the
  loop body; \<open>pushUpdates\<close> keeps the list it was given across its two \<open>await\<close>s and hands
  it to \<open>updatePriceFeedsIfNecessary\<close> as it is, beside the update data and the feed
  identifiers.
\<close>

theorem collect_pubTimes:
  assumes "collect targetPriceListener sourcePriceListener configs ([], [])
             = (pricesToPush, pubTimesToPush)"
  shows
    "pricesToPush =
       filter (\<lambda>c. shouldUpdate c (sourcePriceListener (feed_id c))
                                   (targetPriceListener (feed_id c))) configs
     \<and> pubTimesToPush =
         map (\<lambda>c. case targetPriceListener (feed_id c) of
                     None \<Rightarrow> 1
                   | Some targetObs \<Rightarrow> publishTime targetObs + 1) pricesToPush
     \<and> (pricesToPush \<noteq> [] \<longrightarrow>
          fst (updateFee_settled
                 (snd (updateData_settled
                         (snd (pushUpdates with0x pricesToPush pubTimesToPush))
                         (Inr priceFeedUpdateData)))
                 (Inr updateFee))
          = [ConsoleLog [''Update fee: '' @ updateFee],
             UpdatePriceFeedsIfNecessary priceFeedUpdateData
               (map (\<lambda>c. with0x (feed_id c)) pricesToPush) pubTimesToPush updateFee])"
  using assms
  by (auto simp: collect_append publishTime_or_0_plus_1 pushUpdates_def Let_def)

text \<open>
  The second scenario of the specification: the target at 930 and the source at 1000
  give the batch of the one feed with the publish time 931, and 931 is what is
  submitted. With no target observation the publish time is 1.
\<close>

theorem collect_pubTimes_witness:
  "collect (listener_of (Some (observation 100 1 930)))
           (listener_of (Some (observation 100 1 1000))) [feedA] ([], [])
     = ([feedA], [931])
   \<and> [feedA] \<noteq> []
   \<and> fst (updateFee_settled
            (snd (updateData_settled
                    (snd (pushUpdates (addLeading0x pusherA) [feedA] [931]))
                    (Inr [''01''])))
            (Inr ''1''))
       = [ConsoleLog [''Update fee: 1''],
          UpdatePriceFeedsIfNecessary [''01''] [''0x0a''] [931] ''1'']
   \<and> collect (listener_of None)
             (listener_of (Some (observation 100 1 1000))) [feedA] ([], [])
       = ([feedA], [1])"
proof -
  have batch:
    "collect (listener_of (Some (observation 100 1 930)))
             (listener_of (Some (observation 100 1 1000))) [feedA] ([], [])
       = ([feedA], [931])"
    by (simp add: listener_of_def observation_def feedA_def shouldUpdate_def
          timeDifference_of_def publishTime_or_0_def)
  have bootstrap:
    "collect (listener_of None)
             (listener_of (Some (observation 100 1 1000))) [feedA] ([], [])
       = ([feedA], [1])"
    by (simp add: listener_of_def observation_def feedA_def shouldUpdate_def
          publishTime_or_0_def)
  have "[feedA] \<noteq> []"
    by simp
  with collect_pubTimes [OF batch, of "addLeading0x pusherA" "[''01'']" "''1''"]
  have submitted:
    "fst (updateFee_settled
            (snd (updateData_settled
                    (snd (pushUpdates (addLeading0x pusherA) [feedA] [931]))
                    (Inr [''01''])))
            (Inr ''1''))
       = [ConsoleLog [''Update fee: '' @ ''1''],
          UpdatePriceFeedsIfNecessary [''01'']
            (map (\<lambda>c. addLeading0x pusherA (feed_id c)) [feedA]) [931] ''1'']"
    by blast
  have ids: "map (\<lambda>c. addLeading0x pusherA (feed_id c)) [feedA] = [''0x0a'']"
    by (simp add: pusherA_def feedA_def)
  show ?thesis
    using batch bootstrap submitted ids by simp
qed

subsection \<open>pushUpdates on an empty batch\<close>

text \<open>
  C9. With no feed to push, \<open>pushUpdates\<close> returns at once: it asks for no update data
  and no fee and sends no transaction, and its promise is fulfilled, not rejected. A
  tick whose batch is empty does nothing but go to sleep, and nothing that arrives
  later makes that call do anything.
\<close>

theorem pushUpdates_empty:
  "pushUpdates with0x [] pubTimesToPush = ([], Fulfilled)
   \<and> (fst (collect targetPriceListener sourcePriceListener (priceConfigs this) ([], [])) = []
        \<longrightarrow> trace (loop_body this targetPriceListener sourcePriceListener s)
              = trace s @ [Sleep (cooldownDuration this * 1000)]
            \<and> calls (loop_body this targetPriceListener sourcePriceListener s)
              = calls s @ [Fulfilled]
            \<and> escaped (loop_body this targetPriceListener sourcePriceListener s) = escaped s)
   \<and> (i < length (calls s) \<and> calls s ! i = Fulfilled
        \<longrightarrow> step this s (UpdateData i fetched) = s
            \<and> step this s (UpdateFee i fee) = s
            \<and> step this s (TransactionHash i hash) = s
            \<and> step this s (TransactionError i message) = s)"
  by (auto simp: pushUpdates_def loop_body_def Let_def split: prod.splits)

text \<open>
  The pusher of the one feed when neither listener has an observation: the batch is
  empty and the first tick only sleeps, for 10000 milliseconds.
\<close>

theorem pushUpdates_empty_witness:
  "fst (collect (listener_of None) (listener_of None) (priceConfigs pusherA) ([], [])) = []
   \<and> start pusherA (listener_of None) (listener_of None) []
       = \<lparr>ticks = 1, calls = [Fulfilled], trace = [Sleep 10000], escaped = []\<rparr>
   \<and> 0 < length (calls (start pusherA (listener_of None) (listener_of None) []))
   \<and> calls (start pusherA (listener_of None) (listener_of None) []) ! 0 = Fulfilled
   \<and> step pusherA (start pusherA (listener_of None) (listener_of None) [])
             (UpdateData 0 (Inr [''01'']))
       = start pusherA (listener_of None) (listener_of None) []"
proof -
  have batch:
    "fst (collect (listener_of None) (listener_of None) (priceConfigs pusherA) ([], [])) = []"
    by (simp add: listener_of_def pusherA_def shouldUpdate_def)
  have first:
    "start pusherA (listener_of None) (listener_of None) []
       = \<lparr>ticks = 1, calls = [Fulfilled], trace = [Sleep 10000], escaped = []\<rparr>"
    by (simp add: start_def loop_body_def listener_of_def pusherA_def shouldUpdate_def
          pushUpdates_def)
  show ?thesis
    using batch first
      pushUpdates_empty [of id "[]" "listener_of None" "listener_of None" pusherA
        "start pusherA (listener_of None) (listener_of None) []" 0 "Inr [''01'']"]
    by simp
qed

subsection \<open>The callback of an error of the transaction\<close>

text \<open>\<open>str_includes\<close> is the occurrence of one string inside the other.\<close>

lemma str_includes_sublist: "str_includes s searchString = sublist searchString s"
  by (induction s) (simp_all add: sublist_Cons_right)

lemma str_includes_iff:
  "str_includes s searchString \<longleftrightarrow> (\<exists>before after. s = before @ searchString @ after)"
  by (simp add: str_includes_sublist sublist_def)

text \<open>The callback throws on one class of messages and on no other.\<close>

lemma on_error_Thrown_iff:
  "snd (on_error message) = Thrown err \<longleftrightarrow>
     err = message \<and> str_includes message not_enough_funds
     \<and> \<not> str_includes message no_fresh_prices \<and> \<not> str_includes message incorrect_nonce"
  by (auto simp: on_error_def)

text \<open>The markers on some messages.\<close>

lemma nonce_then_funds:
  "str_includes (incorrect_nonce @ '' '' @ not_enough_funds) incorrect_nonce
   \<and> str_includes (incorrect_nonce @ '' '' @ not_enough_funds) not_enough_funds
   \<and> \<not> str_includes (incorrect_nonce @ '' '' @ not_enough_funds) no_fresh_prices"
  by (simp add: incorrect_nonce_def not_enough_funds_def no_fresh_prices_def)


lemma fresh_only:
  "str_includes (''execution reverted: '' @ no_fresh_prices) no_fresh_prices"
  by (simp add: no_fresh_prices_def)



text \<open>
  C5. On an error whose message carries the marker of a batch with no fresh prices, or
  the marker of an incorrect nonce, the callback writes one line to the console log
  and returns: it throws nothing, no error leaves the program, the calls of
  \<open>pushUpdates\<close> stay as they are, and the loop enters its next tick when the sleep is
  over.
\<close>

theorem on_error_benign:
  assumes "str_includes message no_fresh_prices \<or> str_includes message incorrect_nonce"
  shows
    "snd (on_error message) = Returned
     \<and> (fst (on_error message) =
           [ConsoleLog [''The target chain price has already updated, Skipping this push.'']]
        \<or> fst (on_error message) =
           [ConsoleLog [''Multiple users are using the same accounts and nonce is incorrect. Skipping this push.'']])
     \<and> escaped (step this s (TransactionError i message)) = escaped s
     \<and> calls (step this s (TransactionError i message)) = calls s
     \<and> ticks (step this (step this s (TransactionError i message))
                  (SleepOver targetPriceListener sourcePriceListener))
         = ticks s + 1"
  using assms by (auto simp: on_error_def loop_body_def Let_def split: prod.splits)

text \<open>
  A revert with the marker of no fresh prices, and a message with the marker of the
  nonce followed by the one of the funds: both are skipped.
\<close>

theorem on_error_benign_witness:
  "str_includes (''execution reverted: '' @ no_fresh_prices) no_fresh_prices
   \<and> on_error (''execution reverted: '' @ no_fresh_prices)
       = ([ConsoleLog [''The target chain price has already updated, Skipping this push.'']],
          Returned)
   \<and> str_includes (incorrect_nonce @ '' '' @ not_enough_funds) incorrect_nonce
   \<and> snd (on_error (incorrect_nonce @ '' '' @ not_enough_funds)) = Returned"
proof -
  have fresh: "str_includes (''execution reverted: '' @ no_fresh_prices) no_fresh_prices"
    by (rule fresh_only)
  have nonce: "str_includes (incorrect_nonce @ '' '' @ not_enough_funds) incorrect_nonce"
    using nonce_then_funds by blast
  have "on_error (''execution reverted: '' @ no_fresh_prices)
       = ([ConsoleLog [''The target chain price has already updated, Skipping this push.'']],
          Returned)"
    using fresh by (simp add: on_error_def)
  moreover have "snd (on_error (incorrect_nonce @ '' '' @ not_enough_funds)) = Returned"
    using on_error_benign [of "incorrect_nonce @ '' '' @ not_enough_funds"] nonce by blast
  ultimately show ?thesis
    using fresh nonce by blast
qed




subsection \<open>A failed fetch of the update data\<close>




subsection \<open>The loop and the calls it does not wait for\<close>

lemma ticks_step: "ticks (step this s ev) = ticks s + (if is_SleepOver ev then 1 else 0)"
  by (cases ev)
    (auto simp: loop_body_def Let_def split: prod.splits pushUpdates_state.splits)

lemma length_calls_step:
  "length (calls (step this s ev)) = length (calls s) + (if is_SleepOver ev then 1 else 0)"
  by (cases ev)
    (auto simp: loop_body_def Let_def split: prod.splits pushUpdates_state.splits)

lemma ticks_foldl_step:
  "ticks (foldl (step this) s events) = ticks s + length (filter is_SleepOver events)"
  by (induction events arbitrary: s) (simp_all add: ticks_step)

lemma length_calls_foldl_step:
  "length (calls (foldl (step this) s events))
     = length (calls s) + length (filter is_SleepOver events)"
  by (induction events arbitrary: s) (simp_all add: length_calls_step)

text \<open>
  Against C8 as the specification states it: the pusher of the one feed, when the
  sleep is over before the price service has answered. The second tick has collected
  its batch and called \<open>pushUpdates\<close> again while the call of the first tick still waits
  for its update data.
\<close>

theorem start_overlap:
  "start pusherA (listener_of None) (listener_of (Some (observation 100 1 1000)))
     [SleepOver (listener_of None) (listener_of (Some (observation 100 1 1000)))]
   = \<lparr>ticks = 2,
      calls = [AwaitUpdateData [feedA] [''0x0a''] [1],
               AwaitUpdateData [feedA] [''0x0a''] [1]],
      trace = [GetPriceFeedsUpdateData [''0x0a''], Sleep 10000,
               GetPriceFeedsUpdateData [''0x0a''], Sleep 10000],
      escaped = []\<rparr>"
  by (simp add: start_def loop_body_def listener_of_def observation_def pusherA_def feedA_def
        shouldUpdate_def publishTime_or_0_def pushUpdates_def Let_def)

text \<open>
  C8, amended. The loop of \<open>start\<close> is suspended at the cooldown sleep only: it calls
  \<open>pushUpdates\<close> and does not wait for it. Whatever arrives and in whatever order, the
  number of ticks begun is one more than the number of sleeps that are over; every
  tick makes one call of \<open>pushUpdates\<close>, after its batch is collected; and a new tick
  leaves the earlier calls where they are, finished or not.
\<close>

theorem start_ticks:
  "ticks (start this targetPriceListener sourcePriceListener events)
     = 1 + length (filter is_SleepOver events)
   \<and> length (calls (start this targetPriceListener sourcePriceListener events))
     = ticks (start this targetPriceListener sourcePriceListener events)
   \<and> butlast (calls (step this s (SleepOver targetPriceListener' sourcePriceListener')))
     = calls s
   \<and> ticks (step this s (UpdateData i fetched)) = ticks s
   \<and> ticks (step this s (UpdateFee i fee)) = ticks s
   \<and> ticks (step this s (TransactionHash i hash)) = ticks s
   \<and> ticks (step this s (TransactionError i message)) = ticks s"
proof -
  have "butlast (calls (step this s (SleepOver targetPriceListener' sourcePriceListener')))
          = calls s"
    by (simp add: loop_body_def Let_def split: prod.splits)
  moreover have "ticks (start this targetPriceListener sourcePriceListener events)
                   = 1 + length (filter is_SleepOver events)"
    by (simp add: start_def ticks_foldl_step loop_body_def Let_def split: prod.splits)
  moreover have "length (calls (start this targetPriceListener sourcePriceListener events))
                   = 1 + length (filter is_SleepOver events)"
    by (simp add: start_def length_calls_foldl_step loop_body_def Let_def split: prod.splits)
  ultimately show ?thesis
    by (simp add: ticks_step del: step.simps)
qed

end
